theory Spec2Isabelle
  imports Main "HOL-Library.Sublist"
begin

section \<open>Run-time failures\<close>

text \<open>
  A Go panic is a value: a function that can panic returns \<open>panic + 'a\<close>, with
  \<open>Inl\<close> for the panic. \<open>andThen\<close> sequences two steps and stops at the first panic.
\<close>

datatype panic =
    IndexOutOfRange
  | SliceBoundsOutOfRange
  | NilPointerDereference
  | ReflectPanic
  | NilMapAssignment
  | TypeAssertionFailed

definition andThen :: "panic + 'a \<Rightarrow> ('a \<Rightarrow> panic + 'b) \<Rightarrow> panic + 'b" where
  "andThen m f = (case m of Inl e \<Rightarrow> Inl e | Inr x \<Rightarrow> f x)"

lemma andThen_cong [fundef_cong]:
  "m = m' \<Longrightarrow> (\<And>x. m' = Inr x \<Longrightarrow> f x = f' x) \<Longrightarrow> andThen m f = andThen m' f'"
  by (auto simp: andThen_def split: sum.splits)

lemma andThen_simps [simp]:
  "andThen (Inl e) f = Inl e" "andThen (Inr x) f = f x"
  by (simp_all add: andThen_def)

lemma andThen_weak_cong: "m = m' \<Longrightarrow> andThen m f = andThen m' f"
  by simp

section \<open>The Go string functions the package calls\<close>

text \<open>
  A Go string is a sequence of bytes, as an Isabelle \<open>string\<close> is; \<open>len\<close> and all
  positions count bytes. Positions are \<open>int\<close>, as in Go, with \<open>-1\<close> for "not found".
\<close>

fun Index :: "string \<Rightarrow> string \<Rightarrow> int" where
  "Index [] sub = (if sub = [] then 0 else - 1)"
| "Index (c # cs) sub =
     (if prefix sub (c # cs) then 0
      else (let r = Index cs sub in if r < 0 then - 1 else r + 1))"

text \<open>The slice expression \<open>s[lo:hi]\<close>, which panics unless \<open>0 \<le> lo \<le> hi \<le> len(s)\<close>.\<close>

definition slice :: "string \<Rightarrow> int \<Rightarrow> int \<Rightarrow> panic + string" where
  "slice s lo hi =
     (if 0 \<le> lo \<and> lo \<le> hi \<and> hi \<le> int (length s)
      then Inr (take (nat (hi - lo)) (drop (nat lo) s))
      else Inl SliceBoundsOutOfRange)"

text \<open>
  \<open>utf8.DecodeRuneInString\<close> (its size result): the number of bytes of the first UTF-8
  sequence of a non-empty string; an invalid or truncated sequence has size 1.
\<close>

definition byte :: "char \<Rightarrow> nat" where
  "byte c = of_char c"

definition runeSize :: "string \<Rightarrow> nat" where
  "runeSize s =
     (case s of [] \<Rightarrow> 0
      | c0 # r \<Rightarrow>
         (let b0 = byte c0;
              sz = (if 0xC2 \<le> b0 \<and> b0 \<le> 0xDF then 2
                    else if 0xE0 \<le> b0 \<and> b0 \<le> 0xEF then 3
                    else if 0xF0 \<le> b0 \<and> b0 \<le> 0xF4 then 4 else (1::nat));
              lo = (if b0 = 0xE0 then 0xA0 else if b0 = 0xF0 then 0x90 else (0x80::nat));
              hi = (if b0 = 0xED then 0x9F else if b0 = 0xF4 then 0x8F else (0xBF::nat))
          in if sz = 1 \<or> length s < sz then 1
             else if byte (s ! 1) < lo \<or> hi < byte (s ! 1) then 1
             else if sz \<le> 2 then 2
             else if byte (s ! 2) < 0x80 \<or> 0xBF < byte (s ! 2) then 1
             else if sz \<le> 3 then 3
             else if byte (s ! 3) < 0x80 \<or> 0xBF < byte (s ! 3) then 1
             else 4))"

lemma runeSize_pos: "s \<noteq> [] \<Longrightarrow> 0 < runeSize s"
  by (cases s) (simp_all add: runeSize_def Let_def)

function runes :: "string \<Rightarrow> string list" where
  "runes s = (if s = [] then [] else take (runeSize s) s # runes (drop (runeSize s) s))"
  by pat_completeness auto
termination
  by (relation "measure length") (use runeSize_pos in \<open>auto simp: Suc_le_eq\<close>)

declare runes.simps [simp del]

text \<open>
  \<open>strings.explode(s, n)\<close>: up to \<open>n\<close> pieces, one UTF-8 sequence each, the last piece
  holding the rest; \<open>n < 0\<close> means no limit.
\<close>

definition explode :: "string \<Rightarrow> int \<Rightarrow> string list" where
  "explode s n =
     (let rs = runes s; l = length rs;
          k = (if n < 0 \<or> n > int l then l else nat n)
      in if k = 0 then [] else take (k - 1) rs @ [concat (drop (k - 1) rs)])"

text \<open>
  The loop of \<open>strings.genSplit\<close> for a non-empty separator: cut at the first occurrence,
  at most \<open>n\<close> times, and end with the rest.
\<close>

fun cutLoop :: "nat \<Rightarrow> string \<Rightarrow> string \<Rightarrow> string list" where
  "cutLoop 0 s sep = [s]"
| "cutLoop (Suc n) s sep =
     (let m = Index s sep
      in if m < 0 then [s]
         else take (nat m) s # cutLoop n (drop (nat m + length sep) s) sep)"

text \<open>
  \<open>strings.genSplit(s, sep, 0, n)\<close>. With \<open>n < 0\<close> Go cuts \<open>Count(s, sep)\<close> times, that is at
  every occurrence; the loop stops at the first miss, and \<open>len(s)\<close> bounds the number of
  cuts, so the bound \<open>len(s)\<close> gives the same pieces.
\<close>

definition genSplit :: "string \<Rightarrow> string \<Rightarrow> int \<Rightarrow> string list" where
  "genSplit s sep n =
     (if n = 0 then []
      else if sep = [] then explode s n
      else cutLoop (if n < 0 \<or> n > int (length s) + 1 then length s else nat (n - 1)) s sep)"

definition Split :: "string \<Rightarrow> string \<Rightarrow> string list" where
  "Split s sep = genSplit s sep (- 1)"

definition SplitN :: "string \<Rightarrow> string \<Rightarrow> int \<Rightarrow> string list" where
  "SplitN s sep n = genSplit s sep n"

text \<open>\<open>strings.Replace(s, old, new, 1)\<close>: the first occurrence only.\<close>

definition Replace1 :: "string \<Rightarrow> string \<Rightarrow> string \<Rightarrow> string" where
  "Replace1 s old new =
     (if old = new then s
      else if old = [] then new @ s
      else (let j = Index s old
            in if j < 0 then s else take (nat j) s @ new @ drop (nat j + length old) s))"

text \<open>\<open>strings.Join\<close>.\<close>

fun Join :: "string list \<Rightarrow> string \<Rightarrow> string" where
  "Join [] sep = []"
| "Join [x] sep = x"
| "Join (x # y # ys) sep = x @ sep @ Join (y # ys) sep"

subsection \<open>Numbers in decimal\<close>

definition IntSize :: nat where
  \<comment> \<open>\<open>strconv.IntSize\<close>: the width of Go's \<open>int\<close> and \<open>uint\<close> on a 64-bit platform.\<close>
  "IntSize = 64"

definition isDigit :: "char \<Rightarrow> bool" where
  "isDigit c = (48 \<le> byte c \<and> byte c \<le> 57)"

definition decVal :: "string \<Rightarrow> nat" where
  "decVal s = foldl (\<lambda>acc c. 10 * acc + (byte c - 48)) 0 s"

text \<open>
  \<open>strconv.ParseUint(s, 10, bitSize)\<close> and \<open>strconv.ParseInt(s, 10, bitSize)\<close>: \<open>None\<close> is
  a non-nil error (bad syntax or out of range). Base 10 accepts digits only, with one
  leading sign for \<open>ParseInt\<close>.
\<close>

definition ParseUint :: "string \<Rightarrow> nat \<Rightarrow> nat option" where
  "ParseUint s bitSize =
     (if s = [] \<or> \<not> list_all isDigit s then None
      else if decVal s \<ge> 2 ^ bitSize then None
      else Some (decVal s))"

definition ParseInt :: "string \<Rightarrow> nat \<Rightarrow> int option" where
  "ParseInt s bitSize =
     (case s of [] \<Rightarrow> None
      | c # r \<Rightarrow>
         (let neg = (c = CHR ''-'');
              ds = (if c = CHR ''+'' \<or> c = CHR ''-'' then r else s)
          in if ds = [] \<or> \<not> list_all isDigit ds then None
             else (let un = decVal ds; cutoff = 2 ^ (bitSize - 1)
                   in if \<not> neg \<and> un \<ge> cutoff then None
                      else if neg \<and> un > cutoff then None
                      else Some (if neg then - int un else int un))))"

function natDigits :: "nat \<Rightarrow> string" where
  "natDigits n =
     (if n < 10 then [''0123456789'' ! n]
      else natDigits (n div 10) @ [''0123456789'' ! (n mod 10)])"
  by pat_completeness auto
termination
  by (relation "measure id") auto

declare natDigits.simps [simp del]

definition Itoa :: "int \<Rightarrow> string" where
  \<comment> \<open>\<open>strconv.Itoa\<close>\<close>
  "Itoa i = (if i < 0 then CHR ''-'' # natDigits (nat (- i)) else natDigits (nat i))"

text \<open>The three wrappers of convert.go: a parse error gives 0.\<close>

definition Atoi :: "string \<Rightarrow> int" where
  "Atoi s = (case ParseInt s IntSize of None \<Rightarrow> 0 | Some i \<Rightarrow> i)"

definition Atoi64 :: "string \<Rightarrow> int" where
  "Atoi64 s = (case ParseInt s 64 of None \<Rightarrow> 0 | Some i \<Rightarrow> i)"

definition Atou :: "string \<Rightarrow> nat" where
  "Atou s = (case ParseUint s 64 of None \<Rightarrow> 0 | Some u \<Rightarrow> u)"

subsection \<open>Facts about \<open>Index\<close>\<close>

lemma Index_ge: "- 1 \<le> Index s sub"
  by (induction s) (auto simp: Let_def)

lemma Index_bound: "0 \<le> Index s sub \<Longrightarrow> nat (Index s sub) + length sub \<le> length s"
proof (induction s)
  case Nil
  then show ?case by (simp split: if_splits)
next
  case (Cons c cs)
  show ?case
  proof (cases "prefix sub (c # cs)")
    case True
    from prefix_length_le[OF this] show ?thesis using True by simp
  next
    case False
    with Cons show ?thesis by (auto simp: Let_def nat_add_distrib split: if_splits)
  qed
qed

lemma Index_sound: "0 \<le> Index s sub \<Longrightarrow> prefix sub (drop (nat (Index s sub)) s)"
proof (induction s)
  case Nil
  then show ?case by (simp split: if_splits)
next
  case (Cons c cs)
  show ?case
  proof (cases "prefix sub (c # cs)")
    case True
    then show ?thesis by simp
  next
    case False
    with Cons show ?thesis by (auto simp: Let_def nat_add_distrib split: if_splits)
  qed
qed

lemma Index_first: "0 \<le> Index s sub \<Longrightarrow> i < nat (Index s sub) \<Longrightarrow> \<not> prefix sub (drop i s)"
proof (induction s arbitrary: i)
  case Nil
  then show ?case by (simp split: if_splits)
next
  case (Cons c cs)
  show ?case
  proof (cases "prefix sub (c # cs)")
    case True
    with Cons.prems show ?thesis by simp
  next
    case False
    show ?thesis
    proof (cases i)
      case 0
      with False show ?thesis by simp
    next
      case (Suc j)
      with False Cons show ?thesis by (auto simp: Let_def nat_add_distrib split: if_splits)
    qed
  qed
qed

lemma Index_complete: "prefix sub (drop i s) \<Longrightarrow> i \<le> length s \<Longrightarrow> 0 \<le> Index s sub \<and> Index s sub \<le> int i"
proof (induction s arbitrary: i)
  case Nil
  then show ?case by simp
next
  case (Cons c cs)
  show ?case
  proof (cases "prefix sub (c # cs)")
    case True
    then show ?thesis by simp
  next
    case False
    show ?thesis
    proof (cases i)
      case 0
      with False Cons.prems show ?thesis by simp
    next
      case (Suc j)
      with Cons.prems have "prefix sub (drop j cs)" "j \<le> length cs" by simp_all
      from Cons.IH[OF this] False Suc show ?thesis by (auto simp: Let_def)
    qed
  qed
qed

lemma Index_split:
  assumes "0 \<le> Index s sub"
  shows "s = take (nat (Index s sub)) s @ sub @ drop (nat (Index s sub) + length sub) s"
proof -
  from Index_sound[OF assms] obtain r where r: "drop (nat (Index s sub)) s = sub @ r"
    by (auto simp: prefix_def)
  then have "drop (length sub) (drop (nat (Index s sub)) s) = r" by simp
  then have "drop (nat (Index s sub) + length sub) s = r" by (simp add: add.commute)
  with r show ?thesis by (metis append_take_drop_id)
qed

lemma Index_char_notin: "0 \<le> Index s [c] \<Longrightarrow> c \<notin> set (take (nat (Index s [c])) s)"
proof
  assume a: "0 \<le> Index s [c]" and "c \<in> set (take (nat (Index s [c])) s)"
  then obtain i where i: "i < length (take (nat (Index s [c])) s)" "take (nat (Index s [c])) s ! i = c"
    by (auto simp: in_set_conv_nth)
  then have "i < nat (Index s [c])" "i < length s" "s ! i = c" by auto
  then have "prefix [c] (drop i s)" by (simp add: Cons_nth_drop_Suc[symmetric])
  with Index_first[OF a \<open>i < nat (Index s [c])\<close>] show False by simp
qed

lemma Index_char_neg: "Index s [c] < 0 \<longleftrightarrow> c \<notin> set s"
  by (induction s) (auto simp: Let_def)

definition braces :: "string \<Rightarrow> nat" where
  "braces s = length (filter (\<lambda>c. c = CHR ''}'') s)"

lemma braces_append [simp]: "braces (a @ b) = braces a + braces b"
  by (simp add: braces_def)

lemma braces_zero: "CHR ''}'' \<notin> set s \<Longrightarrow> braces s = 0"
  by (induction s) (auto simp: braces_def)

lemma natDigits_chars: "set (natDigits n) \<subseteq> set ''0123456789''"
proof (induction n rule: natDigits.induct)
  case (1 n)
  have d: "\<And>k. k < 10 \<Longrightarrow> ''0123456789'' ! k \<in> set ''0123456789''"
    by (rule nth_mem) simp
  show ?case
  proof (cases "n < 10")
    case True
    with d[of n] show ?thesis by (subst natDigits.simps) simp
  next
    case False
    have "n mod 10 < 10" by simp
    from d[OF this] 1[OF False] False show ?thesis by (subst natDigits.simps) simp
  qed
qed

lemma Itoa_no_brace: "CHR ''}'' \<notin> set (Itoa i)"
  using natDigits_chars[of "nat i"] natDigits_chars[of "nat (- i)"]
  by (auto simp: Itoa_def)


lemma Index_char_at:
  assumes "0 \<le> Index s [c]"
  shows "nat (Index s [c]) < length s" "s ! nat (Index s [c]) = c"
proof -
  from Index_bound[OF assms] show lt: "nat (Index s [c]) < length s" by simp
  from Index_sound[OF assms] lt show "s ! nat (Index s [c]) = c"
    by (simp add: Cons_nth_drop_Suc[symmetric])
qed

lemma slice_nat:
  "slice s (int a) (int b) =
     (if a \<le> b \<and> b \<le> length s then Inr (take (b - a) (drop a s)) else Inl SliceBoundsOutOfRange)"
  by (simp add: slice_def nat_diff_distrib)

lemma replace_decreases:
  assumes b: "0 \<le> Index s (n @ kv @ ''{'')"
    and e: "Index s (n @ kv @ ''{'') < Index s ''}''"
    and v: "slice s (Index s (n @ kv @ ''{'') + int (length (n @ kv @ ''{''))) (Index s ''}'') = Inr v"
  shows "braces (Replace1 s (n @ kv @ ''{'' @ v @ ''}'') (n @ kv @ Itoa i)) < braces s"
proof -
  define kw where "kw = n @ kv @ ''{''"
  define bp where "bp = nat (Index s kw)"
  define ep where "ep = nat (Index s ''}'')"
  have b': "0 \<le> Index s kw" using b by (simp add: kw_def)
  have e0: "0 \<le> Index s ''}''" using b e by simp
  have v': "slice s (int (bp + length kw)) (int ep) = Inr v"
    using v b' e0 by (simp add: kw_def bp_def ep_def ac_simps)
  have le1: "bp + length kw \<le> ep" and le2: "ep \<le> length s"
    and vdef: "v = take (ep - (bp + length kw)) (drop (bp + length kw) s)"
    using v' unfolding slice_nat by (simp_all split: if_splits)
  have nob: "CHR ''}'' \<notin> set (take ep s)"
    using Index_char_notin[OF e0] by (simp add: ep_def)
  have ep_lt: "ep < length s" and ep_at: "s ! ep = CHR ''}''"
    using Index_char_at[OF e0] by (simp_all add: ep_def)
  have kw_at: "take (length kw) (drop bp s) = kw"
    using Index_sound[OF b'] by (auto simp: bp_def prefix_def)
  define d where "d = ep - (bp + length kw)"
  have epbp: "ep - bp = length kw + d" using le1 by (simp add: d_def)
  have seg: "take (ep - bp) (drop bp s) = kw @ v"
  proof -
    have "take (length kw + d) (drop bp s)
        = take (length kw) (drop bp s) @ take d (drop (length kw) (drop bp s))"
      by (rule take_add)
    also have "drop (length kw) (drop bp s) = drop (bp + length kw) s"
      by (simp add: add.commute)
    finally show ?thesis using kw_at vdef by (simp only: epbp d_def)
  qed
  define old where "old = kw @ v @ ''}''"
  have old_at: "prefix old (drop bp s)"
  proof -
    have "drop bp s = take (ep - bp) (drop bp s) @ drop (ep - bp) (drop bp s)"
      by (rule append_take_drop_id[symmetric])
    also have "drop (ep - bp) (drop bp s) = drop ep s" using le1 by simp
    also have "drop ep s = s ! ep # drop (Suc ep) s" using ep_lt by (simp add: Cons_nth_drop_Suc)
    finally have "drop bp s = (kw @ v) @ CHR ''}'' # drop (Suc ep) s" using seg ep_at by simp
    then show ?thesis by (simp add: old_def prefix_def)
  qed
  have "bp \<le> length s" using le1 le2 by simp
  from Index_complete[OF old_at this] have j0: "0 \<le> Index s old" by simp
  define j where "j = nat (Index s old)"
  from Index_split[OF j0] have split: "s = take j s @ old @ drop (j + length old) s"
    by (simp add: j_def)
  have "set (kw @ v) \<subseteq> set (take ep s)"
  proof -
    have "take (ep - bp) (drop bp s) = drop bp (take ep s)" by (simp add: drop_take)
    with seg have "kw @ v = drop bp (take ep s)" by simp
    then show ?thesis by (metis set_drop_subset)
  qed
  with nob have nokw: "CHR ''}'' \<notin> set (kw @ v)" by blast
  then have "CHR ''}'' \<notin> set (n @ kv)" by (auto simp: kw_def)
  with Itoa_no_brace[of i] have "CHR ''}'' \<notin> set (n @ kv @ Itoa i)" by auto
  then have new0: "braces (n @ kv @ Itoa i) = 0" by (rule braces_zero)
  have old1: "braces old \<ge> 1" by (simp add: old_def braces_def)
  have neq: "old \<noteq> n @ kv @ Itoa i" using new0 old1 by auto
  have ne: "old \<noteq> []" by (simp add: old_def)
  have "Replace1 s old (n @ kv @ Itoa i) = take j s @ (n @ kv @ Itoa i) @ drop (j + length old) s"
    using neq ne j0 by (simp add: Replace1_def Let_def j_def)
  then have "braces (Replace1 s old (n @ kv @ Itoa i))
      = braces (take j s) + braces (drop (j + length old) s)"
    using new0 by simp
  moreover have "braces s = braces (take j s) + braces old + braces (drop (j + length old) s)"
    using arg_cong[OF split, of braces] by (simp only: braces_append add.assoc)
  ultimately have "braces (Replace1 s old (n @ kv @ Itoa i)) < braces s" using old1 by simp
  moreover have "n @ kv @ ''{'' @ v @ ''}'' = old" by (simp add: old_def kw_def)
  ultimately show ?thesis by simp
qed

section \<open>Types and values, as package reflect shows them\<close>

datatype kind =
    KInvalid | KBool
  | KInt | KInt8 | KInt16 | KInt32 | KInt64
  | KUint | KUint8 | KUint16 | KUint32 | KUint64 | KUintptr
  | KFloat32 | KFloat64 | KComplex64 | KComplex128
  | KArray | KChan | KFunc | KInterface | KMap | KPointer | KSlice | KString | KStruct
  | KUnsafePointer

text \<open>
  A \<open>reflect.Type\<close>. \<open>Basic k\<close> is a type of kind \<open>k\<close> with no element structure: the
  predeclared \<open>bool\<close>, numbers and \<open>string\<close>, and the kinds the package never looks into
  (array, chan, func, interface, uintptr, unsafe pointer). A struct type lists its fields
  as (name, exported, type); embedded fields are not modelled. \<open>Defined n t\<close> is the
  defined type named \<open>n\<close> with underlying type \<open>t\<close>: it has the kind of \<open>t\<close> and is a
  different type.
\<close>

datatype gtype =
    Basic kind
  | PointerTo gtype
  | SliceOf gtype
  | MapOf gtype gtype
  | StructOf "(string \<times> bool \<times> gtype) list"
  | Defined string gtype

fun Kind :: "gtype \<Rightarrow> kind" where
  "Kind (Basic k) = k"
| "Kind (PointerTo t) = KPointer"
| "Kind (SliceOf t) = KSlice"
| "Kind (MapOf k v) = KMap"
| "Kind (StructOf fs) = KStruct"
| "Kind (Defined n t) = Kind t"

text \<open>\<open>Type.Elem\<close> and \<open>Type.Key\<close> (here \<open>MapKey\<close>); \<open>None\<close> where reflect panics.\<close>

fun Elem :: "gtype \<Rightarrow> gtype option" where
  "Elem (PointerTo t) = Some t"
| "Elem (SliceOf t) = Some t"
| "Elem (MapOf k v) = Some v"
| "Elem (Defined n t) = Elem t"
| "Elem t = None"

fun MapKey :: "gtype \<Rightarrow> gtype option" where
  "MapKey (MapOf k v) = Some k"
| "MapKey (Defined n t) = MapKey t"
| "MapKey t = None"

fun fieldsOf :: "gtype \<Rightarrow> (string \<times> bool \<times> gtype) list" where
  "fieldsOf (StructOf fs) = fs"
| "fieldsOf (Defined n t) = fieldsOf t"
| "fieldsOf t = []"

text \<open>
  The content of a Go variable. \<open>PointerV v\<close> is a pointer to a variable that holds
  \<open>v\<close>; every pointer the package makes comes from \<open>reflect.New\<close> and is written through
  once, so the content stands for the pointer. \<open>NilV\<close> is the nil pointer, slice or map.
  \<open>FloatV\<close> holds a floating-point or complex number, of a type \<open>'f\<close> left open.
\<close>

datatype 'f gval =
    BoolV bool
  | IntV int
  | UintV nat
  | FloatV 'f
  | StringV string
  | NilV
  | PointerV "'f gval"
  | SliceV "'f gval list"
  | MapV "('f gval \<times> 'f gval) list"
  | StructV "(string \<times> 'f gval) list"

text \<open>An interface value \<open>any\<close>: nil, or a value with its dynamic type.\<close>

type_synonym 'f any = "(gtype \<times> 'f gval) option"

text \<open>
  A \<open>reflect.Value\<close>: the zero Value, or a variable with its \<open>CanSet\<close> flag, its type and
  its content. Writing through it is modelled by returning the new content.
\<close>

datatype 'f rvalue = ZeroValue | RV bool gtype "'f gval"

text \<open>
  What the Go library computes and this development leaves open: \<open>strconv.ParseFloat\<close>
  and \<open>strconv.ParseComplex\<close> (the number, and whether the error is nil), the zero
  floating-point number, \<open>Type.AssignableTo\<close> (\<open>AssignableTo L V T\<close>: a value of type \<open>V\<close>
  may be stored in a variable of type \<open>T\<close>), and \<open>strings.Map(unicode.ToLower, s)\<close> for a
  string with a non-ASCII byte.
\<close>

record 'f lib =
  ParseFloat :: "string \<Rightarrow> nat \<Rightarrow> 'f \<times> bool"
  ParseComplex :: "string \<Rightarrow> nat \<Rightarrow> 'f \<times> bool"
  FloatZero :: 'f
  AssignableTo :: "gtype \<Rightarrow> gtype \<Rightarrow> bool"
  MapToLower :: "string \<Rightarrow> string"

text \<open>\<open>strings.ToLower\<close>: bytewise on an ASCII string, by the Unicode tables otherwise.\<close>

definition lowerASCII :: "char \<Rightarrow> char" where
  "lowerASCII c =
     (case map_of (zip ''ABCDEFGHIJKLMNOPQRSTUVWXYZ'' ''abcdefghijklmnopqrstuvwxyz'') c of
        Some l \<Rightarrow> l
      | None \<Rightarrow> c)"

definition ToLower :: "'f lib \<Rightarrow> string \<Rightarrow> string" where
  "ToLower L s = (if list_all (\<lambda>c. byte c < 128) s then map lowerASCII s else MapToLower L s)"

section \<open>csv.go: the options\<close>

type_synonym 'f FieldConverter = "'f any \<Rightarrow> string \<Rightarrow> string \<Rightarrow> 'f any"

text \<open>
  The two registries are Go maps, nil until the first registration. A lookup gives nil
  for a missing key and for a key registered with a nil function alike, so a registry is
  modelled as a partial map to non-nil converters.
\<close>

record 'f CsvOption =
  DataBeginRowIndex :: int
  ColumnNameRowIndex :: int
  ObjectDataBeginRowIndex :: int
  DisableProtobufAliasName :: bool
  DisableJsonAliasName :: bool
  SliceSeparator :: string
  KvSeparator :: string
  PairSeparator :: string
  customFieldConvertersByColumnName :: "(string \<rightharpoonup> 'f FieldConverter) option"
  customFieldConvertersByType :: "(gtype \<rightharpoonup> 'f FieldConverter) option"
  ignoreColumns :: "string set option"

definition DefaultOption :: "'f CsvOption" where
  "DefaultOption =
     \<lparr> DataBeginRowIndex = 1, ColumnNameRowIndex = 0, ObjectDataBeginRowIndex = 0,
       DisableProtobufAliasName = False, DisableJsonAliasName = False,
       SliceSeparator = '';'', KvSeparator = ''_'', PairSeparator = ''#'',
       customFieldConvertersByColumnName = None, customFieldConvertersByType = None,
       ignoreColumns = None \<rparr>"

text \<open>Reading a field or calling a method through a nil \<open>*CsvOption\<close> panics.\<close>

definition deref :: "'a option \<Rightarrow> panic + 'a" where
  "deref p = (case p of None \<Rightarrow> Inl NilPointerDereference | Some x \<Rightarrow> Inr x)"

definition RegisterConverterByColumnName ::
  "'f CsvOption \<Rightarrow> string \<Rightarrow> 'f FieldConverter \<Rightarrow> 'f CsvOption" where
  "RegisterConverterByColumnName co columnName converter =
     co\<lparr> customFieldConvertersByColumnName :=
           Some ((case customFieldConvertersByColumnName co of None \<Rightarrow> Map.empty | Some m \<Rightarrow> m)
                 (columnName \<mapsto> converter)) \<rparr>"

definition GetConverterByColumnName ::
  "'f CsvOption \<Rightarrow> string \<Rightarrow> 'f FieldConverter option" where
  "GetConverterByColumnName co columnName =
     (case customFieldConvertersByColumnName co of None \<Rightarrow> None | Some m \<Rightarrow> m columnName)"

definition RegisterConverterByType ::
  "'f CsvOption \<Rightarrow> gtype \<Rightarrow> 'f FieldConverter \<Rightarrow> 'f CsvOption" where
  "RegisterConverterByType co typ converter =
     co\<lparr> customFieldConvertersByType :=
           Some ((case customFieldConvertersByType co of None \<Rightarrow> Map.empty | Some m \<Rightarrow> m)
                 (typ \<mapsto> converter)) \<rparr>"

definition GetConverterByType :: "'f CsvOption \<Rightarrow> gtype \<Rightarrow> 'f FieldConverter option" where
  "GetConverterByType co typ =
     (case customFieldConvertersByType co of None \<Rightarrow> None | Some m \<Rightarrow> m typ)"

text \<open>The converter and the flag \<open>convertToElem\<close>.\<close>

definition GetConverterByTypePtrOrStruct ::
  "'f CsvOption \<Rightarrow> gtype \<Rightarrow> 'f FieldConverter option \<times> bool" where
  "GetConverterByTypePtrOrStruct co typ =
     (case customFieldConvertersByType co of
        None \<Rightarrow> (None, False)
      | Some m \<Rightarrow>
         (case m typ of
            Some converter \<Rightarrow> (Some converter, False)
          | None \<Rightarrow>
             if Kind typ = KStruct
             then (let converter = GetConverterByType co (PointerTo typ)
                   in (converter, converter \<noteq> None))
             else (None, False)))"

definition IgnoreColumn :: "'f CsvOption \<Rightarrow> string list \<Rightarrow> 'f CsvOption" where
  "IgnoreColumn co columnNames =
     co\<lparr> ignoreColumns :=
           Some ((case ignoreColumns co of None \<Rightarrow> {} | Some cs \<Rightarrow> cs) \<union> set columnNames) \<rparr>"

section \<open>convert.go: the pair parsers\<close>

record StringPair =
  Key :: string
  Value :: string

text \<open>The loop of \<open>convertPairString\<close> over the pieces of the cell.\<close>

fun pairLoop :: "StringPair list \<Rightarrow> string list \<Rightarrow> string \<Rightarrow> StringPair list" where
  "pairLoop pairs [] kvSeparator = pairs"
| "pairLoop pairs (pairString # rest) kvSeparator =
     (case SplitN pairString kvSeparator 2 of
        [k, v] \<Rightarrow> pairLoop (pairs @ [\<lparr>Key = k, Value = v\<rparr>]) rest kvSeparator
      | _ \<Rightarrow> pairLoop pairs rest kvSeparator)"

definition convertPairString ::
  "StringPair list \<Rightarrow> string \<Rightarrow> string \<Rightarrow> string \<Rightarrow> StringPair list" where
  "convertPairString pairs cellString pairSeparator kvSeparator =
     pairLoop pairs (Split cellString pairSeparator) kvSeparator"

definition ParsePairString :: "string \<Rightarrow> 'f CsvOption option \<Rightarrow> StringPair list" where
  "ParsePairString cellString option =
     (let option = (case option of None \<Rightarrow> DefaultOption | Some co \<Rightarrow> co)
      in convertPairString [] cellString (PairSeparator option) (KvSeparator option))"

text \<open>
  The loop of \<open>ParseNestString\<close> over the nested field names, on the pairs found so far
  and the working string \<open>s\<close>.
\<close>

fun nestLoop ::
  "string \<Rightarrow> string list \<Rightarrow> StringPair list \<Rightarrow> string \<Rightarrow> panic + (StringPair list \<times> string)" where
  "nestLoop kvSeparator [] pairs s = Inr (pairs, s)"
| "nestLoop kvSeparator (nestFieldName # rest) pairs s =
     (let keyword = nestFieldName @ kvSeparator @ ''{'';
          beginPos = Index s keyword
      in if beginPos \<ge> 0 then
           (let endPos = Index s ''}''
            in if endPos > beginPos then
                 andThen (slice s (beginPos + int (length keyword)) endPos) (\<lambda>nestFieldValue.
                 andThen (if endPos < int (length s) - 2
                          then andThen (slice s 0 beginPos) (\<lambda>a.
                               andThen (slice s (endPos + 1) (int (length s))) (\<lambda>b. Inr (a @ b)))
                          else slice s 0 beginPos) (\<lambda>s'.
                 nestLoop kvSeparator rest
                   (pairs @ [\<lparr>Key = nestFieldName, Value = nestFieldValue\<rparr>]) s'))
               else nestLoop kvSeparator rest pairs s)
         else nestLoop kvSeparator rest pairs s)"

definition ParseNestString ::
  "string \<Rightarrow> 'f CsvOption option \<Rightarrow> string list \<Rightarrow> panic + StringPair list" where
  "ParseNestString cellString option nestFieldNames =
     (let option = (case option of None \<Rightarrow> DefaultOption | Some co \<Rightarrow> co)
      in andThen (nestLoop (KvSeparator option) nestFieldNames [] cellString) (\<lambda>(pairs, s).
         Inr (convertPairString pairs s (PairSeparator option) (KvSeparator option))))"

text \<open>
  The inner loop of \<open>ParseNestStringSlice\<close> for one nested field name: every
  \<open>name{...}\<close> is replaced by a placeholder \<open>name<kvSep><id>\<close>, and the braced content is
  kept in \<open>replaceKeys\<close> under that id. Each round removes the first \<open>}\<close> of the working
  string, which is why the loop ends.
\<close>

function nestSliceLoop ::
  "string \<Rightarrow> string \<Rightarrow> int \<Rightarrow> (int \<rightharpoonup> StringPair) \<Rightarrow> string
   \<Rightarrow> panic + (int \<times> (int \<rightharpoonup> StringPair) \<times> string)" where
  "nestSliceLoop nestFieldName kvSeparator idCounter replaceKeys s =
     (if Index s (nestFieldName @ kvSeparator @ ''{'') < 0 then Inr (idCounter, replaceKeys, s)
      else if Index s ''}'' > Index s (nestFieldName @ kvSeparator @ ''{'') then
        (case slice s (Index s (nestFieldName @ kvSeparator @ ''{'')
                       + int (length (nestFieldName @ kvSeparator @ ''{''))) (Index s ''}'') of
           Inl e \<Rightarrow> Inl e
         | Inr nestFieldValue \<Rightarrow>
             nestSliceLoop nestFieldName kvSeparator (idCounter + 1)
               (replaceKeys(idCounter + 1 \<mapsto> \<lparr>Key = nestFieldName, Value = nestFieldValue\<rparr>))
               (Replace1 s (nestFieldName @ kvSeparator @ ''{'' @ nestFieldValue @ ''}'')
                           (nestFieldName @ kvSeparator @ Itoa (idCounter + 1))))
      else Inr (idCounter, replaceKeys, s))"
  by pat_completeness auto
termination
proof (relation "measure (\<lambda>(n, kv, i, r, s). braces s)", goal_cases)
  case 1
  show ?case by simp
next
  case (2 nestFieldName kvSeparator idCounter replaceKeys s nestFieldValue)
  then show ?case using replace_decreases[of s nestFieldName kvSeparator nestFieldValue "idCounter + 1"]
    by simp
qed

declare nestSliceLoop.simps [simp del]

fun nestSliceNames ::
  "string \<Rightarrow> string list \<Rightarrow> int \<Rightarrow> (int \<rightharpoonup> StringPair) \<Rightarrow> string
   \<Rightarrow> panic + (int \<times> (int \<rightharpoonup> StringPair) \<times> string)" where
  "nestSliceNames kvSeparator [] idCounter replaceKeys s = Inr (idCounter, replaceKeys, s)"
| "nestSliceNames kvSeparator (nestFieldName # rest) idCounter replaceKeys s =
     andThen (nestSliceLoop nestFieldName kvSeparator idCounter replaceKeys s)
       (\<lambda>(idCounter', replaceKeys', s'). nestSliceNames kvSeparator rest idCounter' replaceKeys' s')"

text \<open>The pairs of one element; a pair named by a nested field is looked up by its id.\<close>

fun nestSlicePairs ::
  "string list \<Rightarrow> (int \<rightharpoonup> StringPair) \<Rightarrow> string \<Rightarrow> StringPair list \<Rightarrow> string list
   \<Rightarrow> StringPair list" where
  "nestSlicePairs nestFieldNames replaceKeys kvSeparator pairs [] = pairs"
| "nestSlicePairs nestFieldNames replaceKeys kvSeparator pairs (pairString # rest) =
     (case SplitN pairString kvSeparator 2 of
        [k, v] \<Rightarrow>
          if k \<in> set nestFieldNames then
            (case replaceKeys (Atoi v) of
               Some pair \<Rightarrow>
                 nestSlicePairs nestFieldNames replaceKeys kvSeparator (pairs @ [pair]) rest
             | None \<Rightarrow> nestSlicePairs nestFieldNames replaceKeys kvSeparator pairs rest)
          else nestSlicePairs nestFieldNames replaceKeys kvSeparator
                 (pairs @ [\<lparr>Key = k, Value = v\<rparr>]) rest
      | _ \<Rightarrow> nestSlicePairs nestFieldNames replaceKeys kvSeparator pairs rest)"

text \<open>
  \<open>ParseNestStringSlice\<close> reads \<open>option.KvSeparator\<close> or \<open>option.SliceSeparator\<close> before
  anything else, whatever the names are, and never replaces a nil \<open>option\<close>.
\<close>

definition ParseNestStringSlice ::
  "string \<Rightarrow> 'f CsvOption option \<Rightarrow> string list \<Rightarrow> panic + StringPair list list" where
  "ParseNestStringSlice cellString option nestFieldNames =
     andThen (deref option) (\<lambda>co.
     andThen (nestSliceNames (KvSeparator co) nestFieldNames 0 Map.empty cellString)
       (\<lambda>(idCounter, replaceKeys, s).
          Inr (map (\<lambda>elem. nestSlicePairs nestFieldNames replaceKeys (KvSeparator co) []
                              (Split elem (PairSeparator co)))
                   (Split s (SliceSeparator co)))))"

section \<open>The operations of package reflect\<close>

datatype level = LevelDebug | LevelError

type_synonym logs = "(level \<times> string) list"

definition assignable :: "'f lib \<Rightarrow> gtype \<Rightarrow> gtype \<Rightarrow> bool" where
  "assignable L V T = (V = T \<or> AssignableTo L V T)"

definition ValueOf :: "'f any \<Rightarrow> 'f rvalue" where
  "ValueOf i = (case i of None \<Rightarrow> ZeroValue | Some (T, v) \<Rightarrow> RV False T v)"

definition Interface :: "'f rvalue \<Rightarrow> panic + 'f any" where
  "Interface x = (case x of ZeroValue \<Rightarrow> Inl ReflectPanic | RV c T v \<Rightarrow> Inr (Some (T, v)))"

definition contentOf :: "'f rvalue \<Rightarrow> 'f gval" where
  "contentOf x = (case x of ZeroValue \<Rightarrow> NilV | RV c T v \<Rightarrow> v)"

definition elemOf :: "gtype \<Rightarrow> panic + gtype" where
  "elemOf T = (case Elem T of None \<Rightarrow> Inl ReflectPanic | Some t \<Rightarrow> Inr t)"

definition keyOf :: "gtype \<Rightarrow> panic + gtype" where
  "keyOf T = (case MapKey T of None \<Rightarrow> Inl ReflectPanic | Some t \<Rightarrow> Inr t)"

definition setValue :: "'f lib \<Rightarrow> gtype \<Rightarrow> 'f rvalue \<Rightarrow> panic + 'f gval" where
  "setValue L T x =
     (case x of ZeroValue \<Rightarrow> Inl ReflectPanic
      | RV c V v \<Rightarrow> if assignable L V T then Inr v else Inl ReflectPanic)"

definition ElemV :: "'f rvalue \<Rightarrow> panic + 'f rvalue" where
  "ElemV x =
     (case x of ZeroValue \<Rightarrow> Inl ReflectPanic
      | RV c T v \<Rightarrow>
         if Kind T = KPointer then
           (case v of
              PointerV p \<Rightarrow> (case Elem T of None \<Rightarrow> Inl ReflectPanic | Some t \<Rightarrow> Inr (RV True t p))
            | _ \<Rightarrow> Inr ZeroValue)
         else Inl ReflectPanic)"

definition appendValue :: "'f lib \<Rightarrow> gtype \<Rightarrow> 'f gval list \<Rightarrow> 'f rvalue \<Rightarrow> panic + 'f gval list" where
  "appendValue L elemType s x = andThen (setValue L elemType x) (\<lambda>v. Inr (s @ [v]))"

fun mapStore :: "'k \<Rightarrow> 'v \<Rightarrow> ('k \<times> 'v) list \<Rightarrow> ('k \<times> 'v) list" where
  "mapStore k v [] = [(k, v)]"
| "mapStore k v ((k', v') # r) = (if k = k' then (k, v) # r else (k', v') # mapStore k v r)"

definition SetMapIndex ::
  "'f lib \<Rightarrow> gtype \<Rightarrow> gtype \<Rightarrow> 'f gval \<Rightarrow> 'f rvalue \<Rightarrow> 'f rvalue \<Rightarrow> panic + 'f gval" where
  "SetMapIndex L keyType elemType m key elem =
     (case key of ZeroValue \<Rightarrow> Inl ReflectPanic
      | RV kc KT k \<Rightarrow>
         if \<not> assignable L KT keyType then Inl ReflectPanic
         else (case elem of
                 ZeroValue \<Rightarrow>
                   Inr (case m of MapV kvs \<Rightarrow> MapV (filter (\<lambda>(k', v'). k' \<noteq> k) kvs) | _ \<Rightarrow> m)
               | RV ec ET e \<Rightarrow>
                   if \<not> assignable L ET elemType then Inl ReflectPanic
                   else (case m of MapV kvs \<Rightarrow> Inr (MapV (mapStore k e kvs))
                         | _ \<Rightarrow> Inl NilMapAssignment)))"

fun zero :: "'f lib \<Rightarrow> gtype \<Rightarrow> 'f gval" where
  "zero L (Basic k) =
     (if k = KBool then BoolV False
      else if k \<in> {KInt, KInt8, KInt16, KInt32, KInt64} then IntV 0
      else if k \<in> {KUint, KUint8, KUint16, KUint32, KUint64, KUintptr} then UintV 0
      else if k \<in> {KFloat32, KFloat64, KComplex64, KComplex128} then FloatV (FloatZero L)
      else if k = KString then StringV []
      else NilV)"
| "zero L (PointerTo t) = NilV"
| "zero L (SliceOf t) = NilV"
| "zero L (MapOf k v) = NilV"
| "zero L (StructOf fs) = StructV (map (\<lambda>f. (fst f, zero L (snd (snd f)))) fs)"
| "zero L (Defined n t) = zero L t"

definition fieldType :: "gtype \<Rightarrow> string \<Rightarrow> (bool \<times> gtype) option" where
  "fieldType T name = map_of (fieldsOf T) name"

definition fieldContent :: "'f lib \<Rightarrow> 'f gval \<Rightarrow> string \<Rightarrow> gtype \<Rightarrow> 'f gval" where
  "fieldContent L rec name fT =
     (case rec of
        StructV fvs \<Rightarrow> (case map_of fvs name of Some v \<Rightarrow> v | None \<Rightarrow> zero L fT)
      | _ \<Rightarrow> zero L fT)"

fun setFirst :: "string \<Rightarrow> 'v \<Rightarrow> (string \<times> 'v) list \<Rightarrow> (string \<times> 'v) list" where
  "setFirst name v [] = []"
| "setFirst name v ((n, x) # r) = (if n = name then (n, v) # r else (n, x) # setFirst name v r)"

definition setField :: "'f gval \<Rightarrow> string \<Rightarrow> 'f gval \<Rightarrow> 'f gval" where
  "setField rec name v = (case rec of StructV fvs \<Rightarrow> StructV (setFirst name v fvs) | _ \<Rightarrow> rec)"

definition FieldByName :: "'f lib \<Rightarrow> 'f rvalue \<Rightarrow> string \<Rightarrow> panic + 'f rvalue" where
  "FieldByName L x name =
     (case x of ZeroValue \<Rightarrow> Inl ReflectPanic
      | RV c T rec \<Rightarrow>
         if Kind T \<noteq> KStruct then Inl ReflectPanic
         else (case fieldType T name of
                 None \<Rightarrow> Inr ZeroValue
               | Some (exported, fT) \<Rightarrow> Inr (RV (c \<and> exported) fT (fieldContent L rec name fT))))"

section \<open>convert.go: from a cell to a field\<close>

text \<open>
  \<open>Value.SetInt\<close> and \<open>Value.SetUint\<close> store the number truncated to the width of the
  field, as the conversions \<open>int8(x)\<close>, \<open>uint16(x)\<close>, ... do.
\<close>

definition bitSize :: "kind \<Rightarrow> nat" where
  "bitSize k =
     (if k \<in> {KInt8, KUint8} then 8
      else if k \<in> {KInt16, KUint16} then 16
      else if k \<in> {KInt32, KUint32} then 32
      else if k \<in> {KInt64, KUint64} then 64
      else IntSize)"

definition swrap :: "nat \<Rightarrow> int \<Rightarrow> int" where
  "swrap w x = (x + 2 ^ (w - 1)) mod 2 ^ w - 2 ^ (w - 1)"

definition uwrap :: "nat \<Rightarrow> nat \<Rightarrow> nat" where
  "uwrap w x = x mod 2 ^ w"

text \<open>
  \<open>ConvertStringToRealType\<close>: the value as an \<open>any\<close> (with the predeclared type the Go
  expression has), and what it logs. For \<open>Complex64\<close> the code returns the \<open>complex128\<close>
  result of \<open>ParseComplex\<close> unconverted.
\<close>

definition ConvertStringToRealType :: "'f lib \<Rightarrow> gtype \<Rightarrow> string \<Rightarrow> 'f any \<times> logs" where
  "ConvertStringToRealType L typ s =
     (case Kind typ of
        KInt \<Rightarrow> (Some (Basic KInt, IntV (Atoi s)), [])
      | KInt8 \<Rightarrow> (Some (Basic KInt8, IntV (swrap 8 (Atoi s))), [])
      | KInt16 \<Rightarrow> (Some (Basic KInt16, IntV (swrap 16 (Atoi s))), [])
      | KInt32 \<Rightarrow> (Some (Basic KInt32, IntV (swrap 32 (Atoi s))), [])
      | KInt64 \<Rightarrow> (Some (Basic KInt64, IntV (Atoi64 s)), [])
      | KUint \<Rightarrow> (Some (Basic KUint, UintV (uwrap IntSize (Atou s))), [])
      | KUint8 \<Rightarrow> (Some (Basic KUint8, UintV (uwrap 8 (Atou s))), [])
      | KUint16 \<Rightarrow> (Some (Basic KUint16, UintV (uwrap 16 (Atou s))), [])
      | KUint32 \<Rightarrow> (Some (Basic KUint32, UintV (uwrap 32 (Atou s))), [])
      | KUint64 \<Rightarrow> (Some (Basic KUint64, UintV (Atou s)), [])
      | KFloat32 \<Rightarrow> (Some (Basic KFloat32, FloatV (fst (ParseFloat L s 32))), [])
      | KFloat64 \<Rightarrow> (Some (Basic KFloat64, FloatV (fst (ParseFloat L s 64))), [])
      | KComplex64 \<Rightarrow> (Some (Basic KComplex128, FloatV (fst (ParseComplex L s 64))), [])
      | KComplex128 \<Rightarrow> (Some (Basic KComplex128, FloatV (fst (ParseComplex L s 128))), [])
      | KString \<Rightarrow> (Some (Basic KString, StringV s), [])
      | KBool \<Rightarrow> (Some (Basic KBool, BoolV (ToLower L s = ''true'' \<or> s = ''1'')), [])
      | KSlice \<Rightarrow>
          (case Elem typ of
             Some t \<Rightarrow>
               if Kind t = KUint8
               then (Some (SliceOf (Basic KUint8), SliceV (map (\<lambda>c. UintV (byte c)) s)), [])
               else (None, [])
           | None \<Rightarrow> (None, []))
      | _ \<Rightarrow> (None, [(LevelError, ''unsupported kind'')]))"

text \<open>The loop of the \<open>Map\<close> case over the pairs of the cell.\<close>

fun mapLoop ::
  "'f lib \<Rightarrow> 'f rvalue \<Rightarrow> string \<Rightarrow> gtype \<Rightarrow> gtype \<Rightarrow> 'f FieldConverter option \<Rightarrow> bool
   \<Rightarrow> 'f gval \<Rightarrow> logs \<Rightarrow> StringPair list \<Rightarrow> panic + ('f gval \<times> logs)" where
  "mapLoop L object columnName fieldKeyType fieldValueType converter convertToElem newMap lg [] =
     Inr (newMap, lg)"
| "mapLoop L object columnName fieldKeyType fieldValueType converter convertToElem newMap lg
     (pair # rest) =
     (case ConvertStringToRealType L fieldKeyType (Key pair) of (fieldKeyValue, lgk) \<Rightarrow>
      andThen (case converter of
                 Some conv \<Rightarrow>
                   andThen (Interface object) (\<lambda>obj. Inr (conv obj columnName (Value pair), []))
               | None \<Rightarrow> Inr (ConvertStringToRealType L fieldValueType (Value pair)))
        (\<lambda>(fieldValueValue, lgv).
           case fieldValueValue of
             None \<Rightarrow>
               mapLoop L object columnName fieldKeyType fieldValueType converter convertToElem
                 newMap (lg @ lgk @ lgv @ [(LevelError, ''map value parse error'')]) rest
           | Some v \<Rightarrow>
               andThen (if convertToElem then ElemV (ValueOf (Some v)) else Inr (ValueOf (Some v)))
                 (\<lambda>elem.
               andThen (SetMapIndex L fieldKeyType fieldValueType newMap (ValueOf fieldKeyValue) elem)
                 (\<lambda>newMap'.
               mapLoop L object columnName fieldKeyType fieldValueType converter convertToElem
                 newMap' (lg @ lgk @ lgv) rest))))"

lemma Elem_size: "Elem T = Some t \<Longrightarrow> size t < size T"
  by (induction T rule: Elem.induct) auto

lemma struct_field_size: "(n, e, t) \<in> set fs \<Longrightarrow> size t < size (StructOf fs)"
  by (induction fs) auto

lemma fieldsOf_size: "(n, e, t) \<in> set (fieldsOf T) \<Longrightarrow> size t < size T"
proof (induction T rule: fieldsOf.induct)
  case (1 fs)
  then show ?case using struct_field_size[of n e t fs] by simp
next
  case (2 n' t')
  then show ?case by force
qed auto

lemma fieldType_size: "fieldType T name = Some (e, t) \<Longrightarrow> size t < size T"
  using fieldsOf_size[of name e t T] by (auto simp: fieldType_def dest: map_of_SomeD)

lemma elemOf_size: "elemOf T = Inr t \<Longrightarrow> size t < size T"
  by (auto simp: elemOf_def Elem_size split: option.splits)

text \<open>The size of the type of a Value, which the recursion below goes down on.\<close>

definition tsize :: "'f rvalue \<Rightarrow> nat" where
  "tsize x = (case x of ZeroValue \<Rightarrow> 0 | RV c T v \<Rightarrow> size T)"

text \<open>
  \<open>ConvertStringToFieldValue\<close>, with its kind switch (\<open>convertByKind\<close>) and the loops of
  the \<open>Struct\<close> case (\<open>structLoop\<close>, over the pairs of the cell, on the content of the struct
  so far) and of the \<open>Slice\<close> case (\<open>sliceLoop\<close>, over the tokens, on the slice so far). The
  result is the field after the call and the log lines of the call. In the kind switch the
  field is settable, the check having passed.
\<close>

function ConvertStringToFieldValue ::
    "'f lib \<Rightarrow> 'f CsvOption option \<Rightarrow> 'f rvalue \<Rightarrow> 'f rvalue \<Rightarrow> string \<Rightarrow> string \<Rightarrow> bool
     \<Rightarrow> panic + ('f rvalue \<times> logs)"
  and convertByKind ::
    "'f lib \<Rightarrow> 'f CsvOption option \<Rightarrow> 'f rvalue \<Rightarrow> gtype \<Rightarrow> 'f gval \<Rightarrow> string \<Rightarrow> string \<Rightarrow> bool
     \<Rightarrow> panic + ('f gval \<times> logs)"
  and structLoop ::
    "'f lib \<Rightarrow> 'f CsvOption option \<Rightarrow> gtype \<Rightarrow> string \<Rightarrow> string \<Rightarrow> 'f gval \<Rightarrow> logs
     \<Rightarrow> StringPair list \<Rightarrow> panic + ('f gval \<times> logs)"
  and sliceLoop ::
    "'f lib \<Rightarrow> 'f CsvOption option \<Rightarrow> 'f rvalue \<Rightarrow> 'f rvalue \<Rightarrow> string \<Rightarrow> string \<Rightarrow> bool
     \<Rightarrow> gtype \<Rightarrow> gtype \<Rightarrow> 'f FieldConverter option \<Rightarrow> bool \<Rightarrow> 'f gval list \<Rightarrow> logs
     \<Rightarrow> string list \<Rightarrow> panic + ('f gval list \<times> logs)"
where
  "ConvertStringToFieldValue L option object fieldVal columnName fieldString isSubStruct =
     (case fieldVal of
        ZeroValue \<Rightarrow> Inr (fieldVal, [(LevelDebug, ''unknown column'')])
      | RV canSet T cur \<Rightarrow>
          if \<not> canSet then Inr (fieldVal, [(LevelError, ''field cant set'')])
          else
            andThen (if \<not> isSubStruct
                     then andThen (deref option) (\<lambda>co. Inr (GetConverterByColumnName co columnName))
                     else Inr None)
              (\<lambda>fieldConverter.
            case fieldConverter of
              Some converter \<Rightarrow>
                andThen (Interface object) (\<lambda>obj.
                andThen (setValue L T (ValueOf (converter obj columnName fieldString))) (\<lambda>v.
                Inr (RV canSet T v, [])))
            | None \<Rightarrow>
                andThen (if \<not> isSubStruct
                         then andThen (deref option) (\<lambda>co. Inr (GetConverterByTypePtrOrStruct co T))
                         else Inr (None, False))
                  (\<lambda>(fieldConverter, convertFieldToElem).
                case fieldConverter of
                  Some converter \<Rightarrow>
                    andThen (Interface object) (\<lambda>obj.
                    case converter obj columnName fieldString of
                      None \<Rightarrow> Inr (fieldVal, [(LevelDebug, ''field parse error'')])
                    | Some v \<Rightarrow>
                        andThen (if convertFieldToElem then ElemV (ValueOf (Some v))
                                 else Inr (ValueOf (Some v))) (\<lambda>x.
                        andThen (setValue L T x) (\<lambda>v'.
                        Inr (RV canSet T v', []))))
                | None \<Rightarrow>
                    andThen (convertByKind L option object T cur columnName fieldString isSubStruct)
                      (\<lambda>(v, lg). Inr (RV canSet T v, lg)))))"
| "convertByKind L option object T cur columnName fieldString isSubStruct =
     (if Kind T \<in> {KInt, KInt8, KInt16, KInt32, KInt64} then
        Inr (IntV (swrap (bitSize (Kind T)) (Atoi64 fieldString)), [])
      else if Kind T \<in> {KUint, KUint8, KUint16, KUint32, KUint64} then
        Inr (UintV (uwrap (bitSize (Kind T)) (Atou fieldString)), [])
      else if Kind T = KString then Inr (StringV fieldString, [])
      else if Kind T = KFloat32 then
        (case ParseFloat L fieldString 32 of (f32, ok) \<Rightarrow>
           if \<not> ok then Inr (cur, [(LevelError, ''float64 convert error'')])
           else Inr (FloatV f32, []))
      else if Kind T = KFloat64 then
        (case ParseFloat L fieldString 64 of (f64, ok) \<Rightarrow>
           if \<not> ok then Inr (cur, [(LevelError, ''float64 convert error'')])
           else Inr (FloatV f64, []))
      else if Kind T = KBool then
        Inr (BoolV (ToLower L fieldString = ''true'' \<or> fieldString = ''1''), [])
      else if Kind T = KStruct then
        (if isSubStruct then Inr (cur, [(LevelError, ''not support sub struct of sub struct'')])
         else structLoop L option T columnName fieldString cur []
                (ParsePairString fieldString option))
      else if Kind T = KSlice then
        (if fieldString = [] then Inr (cur, [])
         else
           andThen (elemOf T) (\<lambda>elemType.
           andThen (deref option) (\<lambda>co.
           case GetConverterByTypePtrOrStruct co elemType of (converter, convertToElem) \<Rightarrow>
           andThen (if converter = None \<and> Kind elemType \<noteq> KStruct \<and> Kind elemType = KPointer
                    then andThen (elemOf elemType) (\<lambda>t. Inr (if Kind t = KStruct then t else elemType))
                    else Inr elemType) (\<lambda>sliceElemType.
           andThen (sliceLoop L option object (RV True T cur) columnName fieldString isSubStruct
                      elemType sliceElemType converter
                      (if converter = None \<and> Kind elemType = KStruct then True else convertToElem)
                      [] [] (Split fieldString (SliceSeparator co)))
             (\<lambda>(newSlice, lg). Inr (SliceV newSlice, lg))))))
      else if Kind T = KMap then
        (if fieldString = [] then Inr (cur, [])
         else
           andThen (keyOf T) (\<lambda>fieldKeyType.
           andThen (elemOf T) (\<lambda>fieldValueType.
           andThen (deref option) (\<lambda>co.
           case GetConverterByTypePtrOrStruct co fieldValueType of (converter, convertToElem) \<Rightarrow>
             mapLoop L object columnName fieldKeyType fieldValueType converter convertToElem
               (MapV []) [] (ParsePairString fieldString option)))))
      else Inr (cur, [(LevelError, ''unsupported kind'')]))"
| "structLoop L option T columnName fieldString cur lg pairs =
     (case pairs of
        [] \<Rightarrow> Inr (cur, lg)
      | pair # rest \<Rightarrow>
          (case fieldType T (Key pair) of
             None \<Rightarrow>
               structLoop L option T columnName fieldString cur
                 (lg @ [(LevelError, ''fieldValue convert error'')]) rest
           | Some (exported, fT) \<Rightarrow>
               if Kind fT = KPointer then
                 andThen (elemOf fT) (\<lambda>pT.
                 andThen (if exported
                          then setValue L fT (RV False (PointerTo pT) (PointerV (zero L pT)))
                          else Inl ReflectPanic) (\<lambda>p.
                 andThen (ConvertStringToFieldValue L option (RV True T (setField cur (Key pair) p))
                            (RV True pT (zero L pT)) (Key pair) (Value pair) True) (\<lambda>(fv, lg').
                 structLoop L option T columnName fieldString
                   (setField cur (Key pair) (PointerV (contentOf fv))) (lg @ lg') rest)))
               else
                 andThen (ConvertStringToFieldValue L option (RV True T cur)
                            (RV exported fT (fieldContent L cur (Key pair) fT))
                            (Key pair) (Value pair) True) (\<lambda>(fv, lg').
                 structLoop L option T columnName fieldString
                   (setField cur (Key pair) (contentOf fv)) (lg @ lg') rest)))"
| "sliceLoop L option object fieldVal columnName fieldString isSubStruct elemType sliceElemType
     converter convertToElem newSlice lg sArray =
     (case sArray of
        [] \<Rightarrow> Inr (newSlice, lg)
      | str # rest \<Rightarrow>
          if str = [] then
            sliceLoop L option object fieldVal columnName fieldString isSubStruct elemType
              sliceElemType converter convertToElem newSlice lg rest
          else
            andThen (case converter of
                       Some conv \<Rightarrow>
                         andThen (Interface object) (\<lambda>obj. Inr (conv obj columnName str, []))
                     | None \<Rightarrow>
                         if Kind sliceElemType = KStruct then
                           andThen (ConvertStringToFieldValue L option fieldVal
                                      (RV True sliceElemType (zero L sliceElemType)) [] str
                                      isSubStruct) (\<lambda>(fv, lg').
                           Inr (Some (PointerTo sliceElemType, PointerV (contentOf fv)), lg'))
                         else Inr (ConvertStringToRealType L sliceElemType str))
              (\<lambda>(sliceElemValue, lg').
                 case sliceElemValue of
                   None \<Rightarrow>
                     sliceLoop L option object fieldVal columnName fieldString isSubStruct elemType
                       sliceElemType converter convertToElem newSlice
                       (lg @ lg' @ [(LevelError, ''slice item parse error'')]) rest
                 | Some v \<Rightarrow>
                     andThen (if convertToElem then ElemV (ValueOf (Some v))
                              else Inr (ValueOf (Some v))) (\<lambda>x.
                     andThen (appendValue L elemType newSlice x) (\<lambda>newSlice'.
                     sliceLoop L option object fieldVal columnName fieldString isSubStruct elemType
                       sliceElemType converter convertToElem newSlice' (lg @ lg') rest))))"
  by pat_completeness auto

termination
  apply (relation "inv_image (less_than <*lex*> less_than <*lex*> less_than)
      (\<lambda>x. case x of
          Inl (Inl (L, option, object, fieldVal, r)) \<Rightarrow> (tsize fieldVal, 3::nat, 0::nat)
        | Inl (Inr (L, option, object, T, r)) \<Rightarrow> (size T, 2, 0)
        | Inr (Inl (L, option, T, columnName, fieldString, cur, lg, pairs)) \<Rightarrow> (size T, 1, length pairs)
        | Inr (Inr (L, option, object, fieldVal, columnName, fieldString, isSubStruct, elemType,
                    sliceElemType, converter, convertToElem, newSlice, lg, sArray)) \<Rightarrow>
            (Suc (size sliceElemType), 1, length sArray))")
  subgoal by (intro wf_inv_image wf_lex_prod wf_less_than)
  apply (simp_all add: tsize_def)
  subgoal for option T fieldString x xa xb y xc
    by (auto simp: andThen_def split: if_splits sum.splits dest!: elemOf_size)
  subgoal for L T pairs x21 x22 x2 x y xa xb
    using fieldType_size[of T "Key x21" x y] elemOf_size[of y xa] by auto
  subgoal for T pairs x21 x22 x2 x y
    using fieldType_size[of T "Key x21" x y] by auto
  done

declare ConvertStringToFieldValue.simps [simp del] convertByKind.simps [simp del]
  structLoop.simps [simp del] sliceLoop.simps [simp del]

section \<open>convert.go and csv.go: from rows to records\<close>

text \<open>An index expression \<open>xs[i]\<close>, which panics out of range.\<close>

definition index :: "'a list \<Rightarrow> int \<Rightarrow> panic + 'a" where
  "index xs i = (if 0 \<le> i \<and> i < int (length xs) then Inr (xs ! nat i) else Inl IndexOutOfRange)"

text \<open>
  The idiom for a field of pointer kind, before the field is populated:
  \<open>fieldObj := reflect.New(fieldVal.Type().Elem()); fieldVal.Set(fieldObj); fieldVal = fieldObj.Elem()\<close>.
  The result is the record with the new pointer stored, the Value to populate, and whether
  that Value is the pointee.
\<close>

definition allocPointerField ::
  "'f lib \<Rightarrow> 'f gval \<Rightarrow> string \<Rightarrow> 'f rvalue \<Rightarrow> panic + ('f gval \<times> 'f rvalue \<times> bool)" where
  "allocPointerField L rec name fieldVal =
     (case fieldVal of
        ZeroValue \<Rightarrow> Inr (rec, fieldVal, False)
      | RV canSet fT cur \<Rightarrow>
          if Kind fT = KPointer then
            andThen (elemOf fT) (\<lambda>pT.
            andThen (if canSet then setValue L fT (RV False (PointerTo pT) (PointerV (zero L pT)))
                     else Inl ReflectPanic) (\<lambda>p.
            Inr (setField rec name p, RV True pT (zero L pT), True)))
          else Inr (rec, fieldVal, False))"

text \<open>The record after the field was populated through the Value \<open>fv\<close>.\<close>

definition storeField :: "'f gval \<Rightarrow> string \<Rightarrow> bool \<Rightarrow> 'f rvalue \<Rightarrow> 'f gval" where
  "storeField rec name isPointee fv =
     (case fv of
        ZeroValue \<Rightarrow> rec
      | RV c t v \<Rightarrow> setField rec name (if isPointee then PointerV v else v))"

text \<open>
  \<open>newObject\<close> of \<open>ConvertCsvLineToValue\<close>, for the record content \<open>rec\<close>: the struct itself
  when the value type is a struct, the pointer from \<open>reflect.New\<close> otherwise.
\<close>

definition newObjectOf :: "gtype \<Rightarrow> gtype \<Rightarrow> 'f gval \<Rightarrow> 'f rvalue" where
  "newObjectOf valueType valueElemType rec =
     (if Kind valueType = KStruct then RV True valueElemType rec
      else RV False (PointerTo valueElemType) (PointerV rec))"

fun lineLoop ::
  "'f lib \<Rightarrow> 'f CsvOption option \<Rightarrow> gtype \<Rightarrow> gtype \<Rightarrow> string list \<Rightarrow> string list \<Rightarrow> 'f gval
   \<Rightarrow> logs \<Rightarrow> nat list \<Rightarrow> panic + ('f gval \<times> logs)" where
  "lineLoop L option valueType valueElemType row columnNames rec lg [] = Inr (rec, lg)"
| "lineLoop L option valueType valueElemType row columnNames rec lg (columnIndex # rest) =
     andThen (index columnNames (int columnIndex)) (\<lambda>columnName.
     andThen (index row (int columnIndex)) (\<lambda>fieldString.
     andThen (FieldByName L (RV True valueElemType rec) columnName) (\<lambda>fieldVal.
     andThen (allocPointerField L rec columnName fieldVal) (\<lambda>(rec1, fieldVal1, isPointee).
     andThen (ConvertStringToFieldValue L option (newObjectOf valueType valueElemType rec1)
                fieldVal1 columnName fieldString False) (\<lambda>(fv, lg').
     lineLoop L option valueType valueElemType row columnNames
       (storeField rec1 columnName isPointee fv) (lg @ lg') rest)))))"

definition ConvertCsvLineToValue ::
  "'f lib \<Rightarrow> gtype \<Rightarrow> string list \<Rightarrow> string list \<Rightarrow> 'f CsvOption option
   \<Rightarrow> panic + ('f rvalue \<times> logs)" where
  "ConvertCsvLineToValue L valueType row columnNames option =
     andThen (if Kind valueType = KPointer then elemOf valueType else Inr valueType)
       (\<lambda>valueElemType.
     andThen (lineLoop L option valueType valueElemType row columnNames (zero L valueElemType) []
                [0..<length columnNames]) (\<lambda>(rec, lg).
     Inr (newObjectOf valueType valueElemType rec, lg)))"

text \<open>
  The three readers return the Go error (\<open>None\<close> is nil, otherwise the message), the
  destination after the call and the log lines; or they panic.
\<close>

fun mapRows ::
  "'f lib \<Rightarrow> 'f CsvOption \<Rightarrow> gtype \<Rightarrow> gtype \<Rightarrow> string list \<Rightarrow> 'f gval \<Rightarrow> logs
   \<Rightarrow> string list list \<Rightarrow> panic + ('f gval \<times> logs)" where
  "mapRows L option keyType valueType columnNames m lg [] = Inr (m, lg)"
| "mapRows L option keyType valueType columnNames m lg (row # rest) =
     andThen (index row 0) (\<lambda>cell.
     case ConvertStringToRealType L keyType cell of (key, lgk) \<Rightarrow>
     andThen (ConvertCsvLineToValue L valueType row columnNames (Some option)) (\<lambda>(value, lgv).
     andThen (SetMapIndex L keyType valueType m (ValueOf key) value) (\<lambda>m'.
     mapRows L option keyType valueType columnNames m' (lg @ lgk @ lgv) rest)))"

definition ReadCsvFromDataMap ::
  "'f lib \<Rightarrow> string list list \<Rightarrow> gtype \<Rightarrow> 'f gval \<Rightarrow> 'f CsvOption option
   \<Rightarrow> panic + (string option \<times> 'f gval \<times> logs)" where
  "ReadCsvFromDataMap L rows mType m option =
     (let option = (case option of None \<Rightarrow> DefaultOption | Some co \<Rightarrow> co)
      in if length rows = 0 then Inr (Some ''no csv header'', m, [])
         else if int (length rows) \<le> ColumnNameRowIndex option
         then Inr (Some ''no column name header'', m, [])
         else
           andThen (index rows (ColumnNameRowIndex option)) (\<lambda>columnNames.
           if length columnNames = 0 then Inr (Some ''no column'', m, [])
           else if DataBeginRowIndex option < 1
           then Inr (Some ''DataBeginRowIndex must >=1'', m, [])
           else
             andThen (keyOf mType) (\<lambda>keyType.
             andThen (elemOf mType) (\<lambda>valueType.
             andThen (mapRows L option keyType valueType columnNames m []
                        (drop (nat (DataBeginRowIndex option)) rows)) (\<lambda>(m', lg).
             Inr (None, m', lg))))))"

fun sliceRows ::
  "'f lib \<Rightarrow> 'f CsvOption \<Rightarrow> gtype \<Rightarrow> string list \<Rightarrow> 'f gval list \<Rightarrow> logs
   \<Rightarrow> string list list \<Rightarrow> panic + ('f gval list \<times> logs)" where
  "sliceRows L option valueType columnNames s lg [] = Inr (s, lg)"
| "sliceRows L option valueType columnNames s lg (row # rest) =
     andThen (ConvertCsvLineToValue L valueType row columnNames (Some option)) (\<lambda>(value, lgv).
     andThen (Interface value) (\<lambda>i.
     case i of
       None \<Rightarrow> Inl TypeAssertionFailed
     | Some (t, v) \<Rightarrow>
         if t = valueType
         then sliceRows L option valueType columnNames (s @ [v]) (lg @ lgv) rest
         else Inl TypeAssertionFailed))"

definition ReadCsvFromDataSlice ::
  "'f lib \<Rightarrow> string list list \<Rightarrow> gtype \<Rightarrow> 'f gval list \<Rightarrow> 'f CsvOption option
   \<Rightarrow> panic + (string option \<times> 'f gval list \<times> logs)" where
  "ReadCsvFromDataSlice L rows sType s option =
     (let option = (case option of None \<Rightarrow> DefaultOption | Some co \<Rightarrow> co)
      in if length rows = 0 then Inr (Some ''no csv header'', s, [])
         else if int (length rows) \<le> ColumnNameRowIndex option
         then Inr (Some ''no column name header'', s, [])
         else
           andThen (index rows (ColumnNameRowIndex option)) (\<lambda>columnNames.
           if length columnNames = 0 then Inr (Some ''no column'', s, [])
           else if DataBeginRowIndex option < 1
           then Inr (Some ''DataBeginRowIndex must >=1'', s, [])
           else
             andThen (elemOf sType) (\<lambda>valueType.
             andThen (sliceRows L option valueType columnNames s []
                        (drop (nat (DataBeginRowIndex option)) rows)) (\<lambda>(s', lg).
             Inr (None, s', lg)))))"

text \<open>
  \<open>getAliasNameMap\<close> is not among the sources: the alias table it returns for the type of
  the destination is a parameter, \<open>aliasNames\<close>. \<open>valElem\<close> is the destination behind the
  pointer \<open>v\<close> of type \<open>typ\<close>, the zero Value for a nil pointer.
\<close>

fun objectRows ::
  "'f lib \<Rightarrow> (string \<rightharpoonup> string) \<Rightarrow> 'f CsvOption \<Rightarrow> gtype \<Rightarrow> 'f rvalue \<Rightarrow> logs
   \<Rightarrow> string list list \<Rightarrow> panic + ('f rvalue \<times> logs)" where
  "objectRows L aliasNames option typ valElem lg [] = Inr (valElem, lg)"
| "objectRows L aliasNames option typ valElem lg (row # rest) =
     andThen (index row 0) (\<lambda>columnName.
     andThen (index row 1) (\<lambda>fieldString.
     andThen (FieldByName L valElem columnName) (\<lambda>fieldVal0.
     andThen (case fieldVal0 of
                RV c t v \<Rightarrow> Inr (fieldVal0, columnName)
              | ZeroValue \<Rightarrow>
                  (case aliasNames columnName of
                     Some realFieldName \<Rightarrow>
                       andThen (FieldByName L valElem realFieldName) (\<lambda>fv. Inr (fv, realFieldName))
                   | None \<Rightarrow> Inr (fieldVal0, columnName))) (\<lambda>(fieldVal, fieldName).
     andThen (allocPointerField L (contentOf valElem) fieldName fieldVal)
       (\<lambda>(rec1, fieldVal1, isPointee).
     andThen (ConvertStringToFieldValue L (Some option) (RV False typ (PointerV rec1)) fieldVal1
                columnName fieldString False) (\<lambda>(fv, lg').
     objectRows L aliasNames option typ
       (case valElem of
          ZeroValue \<Rightarrow> ZeroValue
        | RV c t v \<Rightarrow> RV c t (storeField rec1 fieldName isPointee fv)) (lg @ lg') rest))))))"

definition ReadCsvFromDataObject ::
  "'f lib \<Rightarrow> (gtype \<Rightarrow> 'f CsvOption \<Rightarrow> (string \<rightharpoonup> string)) \<Rightarrow> string list list \<Rightarrow> 'f any
   \<Rightarrow> 'f CsvOption option \<Rightarrow> panic + (string option \<times> 'f any \<times> logs)" where
  "ReadCsvFromDataObject L getAliasNameMap rows v option =
     (let option = (case option of None \<Rightarrow> DefaultOption | Some co \<Rightarrow> co)
      in if length rows = 0 then Inr (Some ''no csv header'', v, [])
         else if length (rows ! 0) < 2 then Inr (Some ''column count must >= 2'', v, [])
         else if ObjectDataBeginRowIndex option < 1
         then Inr (Some ''ObjectDataBeginRowIndex must >=1'', v, [])
         else
           (case v of
              None \<Rightarrow> Inl NilPointerDereference
            | Some (typ, p) \<Rightarrow>
                if Kind typ \<noteq> KPointer then Inr (Some ''v must be Ptr'', v, [])
                else
                  andThen (ElemV (ValueOf v)) (\<lambda>valElem.
                  andThen (objectRows L
                             (case valElem of ZeroValue \<Rightarrow> Map.empty
                              | RV c t x \<Rightarrow> getAliasNameMap t option)
                             option typ valElem []
                             (drop (nat (ObjectDataBeginRowIndex option)) rows))
                    (\<lambda>(valElem', lg).
                  Inr (None,
                       (case valElem' of ZeroValue \<Rightarrow> v | RV c t x \<Rightarrow> Some (typ, PointerV x)),
                       lg)))))"

text \<open>
  An instance of the library parameters for the examples, which hold no floating-point
  field: no string parses as a float, only identical types are assignable.
\<close>

definition exampleLib :: "unit lib" where
  "exampleLib =
     \<lparr> ParseFloat = (\<lambda>s b. ((), False)), ParseComplex = (\<lambda>s b. ((), False)), FloatZero = (),
       AssignableTo = (\<lambda>V T. False), MapToLower = (\<lambda>s. s) \<rparr>"

definition ItemCfg :: gtype where
  "ItemCfg = Defined ''ItemCfg'' (StructOf
     [(''CfgId'', True, Basic KInt32), (''Name'', True, Basic KString),
      (''Detail'', True, Basic KString), (''Unique'', True, Basic KBool)])"

text \<open>
  The encoding that the round trip of the pair parser starts from: every pair as
  \<open>key + kvSep + value\<close>, the pairs joined by \<open>pairSep\<close>.
\<close>

definition joinPairs :: "(string \<times> string) list \<Rightarrow> string \<Rightarrow> string \<Rightarrow> string" where
  "joinPairs pairs kvSep pairSep = Join (map (\<lambda>(k, v). k @ kvSep @ v) pairs) pairSep"

section \<open>Properties of the pair parsers\<close>

subsection \<open>Splitting what was joined\<close>

lemma Index_append_char: "c \<notin> set x \<Longrightarrow> Index (x @ c # r) [c] = int (length x)"
  by (induction x) (auto simp: Let_def)

lemma cutLoop_no_sep: "Index s sep < 0 \<Longrightarrow> cutLoop n s sep = [s]"
  by (cases n) (simp_all add: Let_def)

lemma cutLoop_Join:
  "ps \<noteq> [] \<Longrightarrow> \<forall>p\<in>set ps. c \<notin> set p \<Longrightarrow> length ps \<le> Suc n \<Longrightarrow> cutLoop n (Join ps [c]) [c] = ps"
proof (induction ps "[c]" arbitrary: n rule: Join.induct)
  case 1
  then show ?case by simp
next
  case (2 x)
  then show ?case by (simp add: cutLoop_no_sep Index_char_neg)
next
  case (3 x y ys)
  from "3.prems" obtain m where n: "n = Suc m" by (cases n) auto
  from "3.prems" have x: "c \<notin> set x" by simp
  have "cutLoop m (Join (y # ys) [c]) [c] = y # ys"
    using "3.prems" n by (intro "3.hyps") auto
  then show ?case using Index_append_char[OF x] n by (simp add: Let_def)
qed

lemma length_Join: "length ps \<le> Suc (length (Join ps [c]))"
  by (induction ps "[c]" rule: Join.induct) auto

lemma Split_Join:
  "ps \<noteq> [] \<Longrightarrow> \<forall>p\<in>set ps. c \<notin> set p \<Longrightarrow> Split (Join ps [c]) [c] = ps"
  using cutLoop_Join[of ps c "length (Join ps [c])"] length_Join[of ps c]
  by (simp add: Split_def genSplit_def)

lemma SplitN_pair: "a \<notin> set k \<Longrightarrow> SplitN (k @ a # v) [a] 2 = [k, v]"
  using Index_append_char[of a k v]
  by (simp add: SplitN_def genSplit_def Let_def numeral_2_eq_2)

lemma pairLoop_encoded:
  "\<forall>(k, v)\<in>set pairs. a \<notin> set k \<Longrightarrow>
   pairLoop acc (map (\<lambda>(k, v). k @ [a] @ v) pairs) [a]
     = acc @ map (\<lambda>(k, v). \<lparr>Key = k, Value = v\<rparr>) pairs"
  by (induction pairs arbitrary: acc) (auto simp: SplitN_pair)

lemma pairLoop_acc: "pairLoop acc ps kv = acc @ pairLoop [] ps kv"
proof (induction ps arbitrary: acc)
  case Nil
  then show ?case by simp
next
  case (Cons p ps)
  show ?case
    using Cons[of "acc @ [x]" for x] Cons[of "[x]" for x] Cons[of acc]
    by (simp split: list.splits)
qed

lemma nestLoop_found:
  assumes b: "Index s (name @ kv @ ''{'') = int b"
    and e: "Index s ''}'' = int e"
    and le: "b + length (name @ kv @ ''{'') \<le> e"
    and tail: "e + 2 \<noteq> length s"
  shows "nestLoop kv (name # rest) pairs s =
         nestLoop kv rest
           (pairs @ [\<lparr>Key = name,
                       Value = take (e - (b + length (name @ kv @ ''{'')))
                                 (drop (b + length (name @ kv @ ''{'')) s)\<rparr>])
           (take b s @ drop (Suc e) s)"
proof -
  have e0: "0 \<le> Index s ''}''" using e by simp
  from Index_bound[OF e0] e have elt: "e < length s" by simp
  have blt: "b < e" using le by simp
  have v: "slice s (int b + int (length (name @ kv @ ''{''))) (int e)
           = Inr (take (e - (b + length (name @ kv @ ''{''))) (drop (b + length (name @ kv @ ''{'')) s))"
    using le elt slice_nat[of s "b + length (name @ kv @ ''{'')" e] by (simp add: ac_simps)
  have a: "slice s 0 (int b) = Inr (take b s)"
    using blt elt slice_nat[of s 0 b] by simp
  have c: "slice s (int e + 1) (int (length s)) = Inr (drop (Suc e) s)"
    using elt slice_nat[of s "Suc e" "length s"] by (simp add: ac_simps)
  show ?thesis
  proof (cases "e + 2 < length s")
    case True
    then have "int e < int (length s) - 2" by simp
    then show ?thesis using b e blt v a c by (simp add: Let_def)
  next
    case False
    with tail elt have "Suc e = length s" by simp
    then have "drop (Suc e) s = []" "\<not> int e < int (length s) - 2" by simp_all
    then show ?thesis using b e blt v a by (simp add: Let_def)
  qed
qed

subsection \<open>Nested values\<close>

text \<open>
  C3 (as amended). One round of \<open>ParseNestString\<close> for a nested field name, on the working
  string \<open>s\<close>: when the keyword \<open>name + kvSep + "{"\<close> first occurs at \<open>b\<close>, the first \<open>}\<close> of
  the whole working string is at \<open>e\<close> and lies after the keyword, and it is not followed by
  exactly one character, the round emits exactly one pair for the name, whose value is the
  text between the keyword and that \<open>}\<close>, unsplit, and removes the span \<open>name{...}\<close> from
  the working string. When the keyword does not occur, or the first \<open>}\<close> of the working string
  does not come after the start of the keyword, the round emits nothing and leaves the working
  string as it is. The result of \<open>ParseNestString\<close> is the pairs of the rounds followed by
  the pairs that \<open>ParsePairString\<close> finds in the residual string.
\<close>

theorem ParseNestString_extract:
  fixes option :: "'f CsvOption option"
  shows
  "(Index s (name @ kv @ ''{'') = int b \<and> Index s ''}'' = int e
      \<and> b + length (name @ kv @ ''{'') \<le> e \<and> e + 2 \<noteq> length s
    \<longrightarrow> nestLoop kv (name # rest) pairs s =
        nestLoop kv rest
          (pairs @ [\<lparr>Key = name,
                      Value = take (e - (b + length (name @ kv @ ''{'')))
                                (drop (b + length (name @ kv @ ''{'')) s)\<rparr>])
          (take b s @ drop (Suc e) s))
   \<and> (Index s (name @ kv @ ''{'') < 0 \<or> Index s ''}'' \<le> Index s (name @ kv @ ''{'')
    \<longrightarrow> nestLoop kv (name # rest) pairs s = nestLoop kv rest pairs s)
   \<and> nestLoop kv [] pairs s = Inr (pairs, s)
   \<and> ParseNestString cell option names =
       andThen (nestLoop (KvSeparator (case option of None \<Rightarrow> DefaultOption | Some co \<Rightarrow> co))
                  names [] cell)
         (\<lambda>(found, residual). Inr (found @ ParsePairString residual option))"
proof (intro conjI impI)
  assume "Index s (name @ kv @ ''{'') = int b \<and> Index s ''}'' = int e
      \<and> b + length (name @ kv @ ''{'') \<le> e \<and> e + 2 \<noteq> length s"
  then show "nestLoop kv (name # rest) pairs s =
        nestLoop kv rest
          (pairs @ [\<lparr>Key = name,
                      Value = take (e - (b + length (name @ kv @ ''{'')))
                                (drop (b + length (name @ kv @ ''{'')) s)\<rparr>])
          (take b s @ drop (Suc e) s)"
    using nestLoop_found by blast
next
  assume "Index s (name @ kv @ ''{'') < 0 \<or> Index s ''}'' \<le> Index s (name @ kv @ ''{'')"
  then show "nestLoop kv (name # rest) pairs s = nestLoop kv rest pairs s"
    by (auto simp: Let_def)
next
  show "nestLoop kv [] pairs s = Inr (pairs, s)" by simp
next
  show "ParseNestString cell option names =
       andThen (nestLoop (KvSeparator (case option of None \<Rightarrow> DefaultOption | Some co \<Rightarrow> co))
                  names [] cell)
         (\<lambda>(found, residual). Inr (found @ ParsePairString residual option))"
    unfolding ParseNestString_def ParsePairString_def convertPairString_def Let_def
    by (rule andThen_cong) (auto simp: pairLoop_acc[of _ _ _, symmetric] intro: pairLoop_acc)
qed

theorem ParseNestString_extract_witness:
  "nestLoop ''_'' [''A''] [] ''x_1#A_{y_2}#z_3''
     = Inr ([\<lparr>Key = ''A'', Value = ''y_2''\<rparr>], ''x_1##z_3'')
   \<and> nestLoop ''_'' [''B''] [] ''x_1'' = Inr ([], ''x_1'')"
  using ParseNestString_extract[of "''x_1#A_{y_2}#z_3''" "''A''" "''_''" 4 10 "[]" "[]" "[]" None "[]"]
    ParseNestString_extract[of "''x_1''" "''B''" "''_''" 0 0 "[]" "[]" "[]" None "[]"]
  by (simp add: slice_def)

text \<open>
  The claim as first stated took the next \<open>}\<close> after the keyword. The code takes the first
  \<open>}\<close> of the working string: with a \<open>}\<close> before the keyword nothing is extracted, and the
  braces stay in the value that the plain pair parser finds.
\<close>

theorem ParseNestString_counterexample:
  "0 \<le> Index ''}#A_{x}'' ''A_{''
   \<and> ParseNestString ''}#A_{x}'' (None :: unit CsvOption option) [''A'']
       = Inr [\<lparr>Key = ''A'', Value = ''{x}''\<rparr>]
   \<and> ParseNestString ''}#A_{x}'' (None :: unit CsvOption option) [''A'']
       \<noteq> Inr [\<lparr>Key = ''A'', Value = ''x''\<rparr>]"
  by (simp add: ParseNestString_def DefaultOption_def convertPairString_def Split_def SplitN_def
      genSplit_def Let_def numeral_2_eq_2 eval_nat_numeral)

subsection \<open>Round trip\<close>

text \<open>
  C4 (as amended). For separators of one character each, \<open>a\<close> between key and value and
  \<open>b\<close> between pairs, with \<open>a \<noteq> b\<close>, and pairs whose keys and values contain neither:
  parsing the joined string gives back the pairs, in order.
\<close>

theorem roundtrip:
  assumes "a \<noteq> b"
    and "\<forall>(k, v)\<in>set pairs. a \<notin> set k \<and> b \<notin> set k \<and> a \<notin> set v \<and> b \<notin> set v"
  shows "convertPairString [] (joinPairs pairs [a] [b]) [b] [a]
           = map (\<lambda>(k, v). \<lparr>Key = k, Value = v\<rparr>) pairs"
proof (cases "pairs = []")
  case True
  then show ?thesis
    by (simp add: convertPairString_def joinPairs_def Split_def SplitN_def genSplit_def)
next
  case False
  let ?ps = "map (\<lambda>(k, v). k @ [a] @ v) pairs"
  have "\<forall>p\<in>set ?ps. b \<notin> set p" using assms by auto
  moreover have "?ps \<noteq> []" using False by simp
  ultimately have "Split (Join ?ps [b]) [b] = ?ps" by (rule Split_Join[rotated])
  moreover have "\<forall>(k, v)\<in>set pairs. a \<notin> set k" using assms(2) by auto
  ultimately show ?thesis
    using pairLoop_encoded[of pairs a "[]"] by (simp add: convertPairString_def joinPairs_def)
qed

theorem roundtrip_witness:
  "convertPairString [] (joinPairs [(''a'', ''1''), (''b'', ''2'')] ''_'' ''#'') ''#'' ''_''
     = [\<lparr>Key = ''a'', Value = ''1''\<rparr>, \<lparr>Key = ''b'', Value = ''2''\<rparr>]"
  using roundtrip[of "CHR ''_''" "CHR ''#''" "[(''a'', ''1''), (''b'', ''2'')]"] by simp

text \<open>
  With a separator of more than one character the round trip fails: the key \<open>a\<close> does not
  contain the separator \<open>aa\<close>, but \<open>a + aa + x\<close> is cut at its first \<open>aa\<close>, at position 0.
\<close>

theorem roundtrip_counterexample:
  "Index ''a'' ''aa'' < 0 \<and> Index ''a'' ''#'' < 0 \<and> Index ''x'' ''aa'' < 0 \<and> Index ''x'' ''#'' < 0
   \<and> ''aa'' \<noteq> ''#''
   \<and> convertPairString [] (joinPairs [(''a'', ''x'')] ''aa'' ''#'') ''#'' ''aa''
        = [\<lparr>Key = [], Value = ''ax''\<rparr>]
   \<and> convertPairString [] (joinPairs [(''a'', ''x'')] ''aa'' ''#'') ''#'' ''aa''
        \<noteq> [\<lparr>Key = ''a'', Value = ''x''\<rparr>]"
  by (simp add: convertPairString_def joinPairs_def Split_def SplitN_def genSplit_def Let_def
      numeral_2_eq_2 eval_nat_numeral)

subsection \<open>An array of nested groups\<close>

text \<open>
  C5. \<open>ParseNestStringSlice\<close> on the cell of the test \<open>TestNestStruct\<close>, with the default
  separators and the nested field name \<open>Items\<close>, returns two groups, each with its \<open>Name\<close>
  pair and its \<open>Items\<close> pair holding the braced content unsplit.
\<close>

theorem ParseNestStringSlice_example:
  "ParseNestStringSlice
     ''Name_a#Items_{CfgId_1#Num_1;CfgId_2#Num_1};Name_b#Items_{CfgId_1#Num_2;CfgId_2#Num_2}''
     (Some DefaultOption) [''Items'']
   = Inr [[\<lparr>Key = ''Name'', Value = ''a''\<rparr>,
           \<lparr>Key = ''Items'', Value = ''CfgId_1#Num_1;CfgId_2#Num_1''\<rparr>],
          [\<lparr>Key = ''Name'', Value = ''b''\<rparr>,
           \<lparr>Key = ''Items'', Value = ''CfgId_1#Num_2;CfgId_2#Num_2''\<rparr>]]"
  by (simp add: ParseNestStringSlice_def deref_def DefaultOption_def nestSliceLoop.simps
      slice_def Replace1_def Itoa_def natDigits.simps Split_def SplitN_def genSplit_def Let_def
      Atoi_def ParseInt_def IntSize_def isDigit_def decVal_def byte_def
      cong: sum.case_cong_weak)

subsection \<open>A nil option\<close>

text \<open>
  C10. \<open>ParsePairString\<close> and \<open>ParseNestString\<close> replace a nil option by \<open>DefaultOption\<close>;
  \<open>ParseNestStringSlice\<close> dereferences its option without a check, so with nil it panics,
  whatever the cell and the names are.
\<close>

theorem nil_option:
  "ParsePairString cell (None :: 'f CsvOption option)
     = ParsePairString cell (Some (DefaultOption :: 'f CsvOption))
   \<and> ParseNestString cell (None :: 'f CsvOption option) names
     = ParseNestString cell (Some (DefaultOption :: 'f CsvOption)) names
   \<and> ParseNestStringSlice cell (None :: 'f CsvOption option) names = Inl NilPointerDereference"
  by (simp add: ParsePairString_def ParseNestString_def ParseNestStringSlice_def deref_def)

end
